theory Spec2Isabelle
  imports Complex_Main "HOL-Library.Multiset"
begin

section \<open>plotRaster: the raster plot of spiking (src/plotRaster2.py)\<close>

text \<open>
  The module holds one function, \<^verbatim>\<open>plotRaster\<close>. Its body is embedded block by block,
  each block a definition that carries the source lines it stands for. \<open>prepare\<close> is the
  body up to line 245, before the plotter is created, and \<open>plotRaster\<close> is the whole
  body, with the plotter calls and the name look-ups in their source order.

  The decorator \<^verbatim>\<open>@exception\<close> is imported from another package and its code is not
  among the sources; the embedding is of the function as written, before decoration.
\<close>

subsection \<open>Exceptions as values\<close>

datatype pyerr =
    KeyError string
  | IndexError
  | TypeError
  | NameError string
  | CollaboratorError string

definition bindE :: "pyerr + 'a \<Rightarrow> ('a \<Rightarrow> pyerr + 'b) \<Rightarrow> pyerr + 'b" where
  "bindE m f = (case m of Inl e \<Rightarrow> Inl e | Inr v \<Rightarrow> f v)"

text \<open>A comprehension whose element expression may raise: the first exception wins.\<close>

primrec mapE :: "('a \<Rightarrow> pyerr + 'b) \<Rightarrow> 'a list \<Rightarrow> pyerr + 'b list" where
  "mapE f [] = Inr []"
| "mapE f (x # xs) =
     (case f x of
        Inl e \<Rightarrow> Inl e
      | Inr y \<Rightarrow> (case mapE f xs of Inl e \<Rightarrow> Inl e | Inr ys \<Rightarrow> Inr (y # ys)))"

subsection \<open>The raster data a caller passes\<close>

text \<open>
  \<^verbatim>\<open>rasterData\<close> is a dict or a list/tuple. The item types are parameters: \<open>'a\<close> the
  spike times, \<open>'b\<close> the spike indices, \<open>'c\<close> the population sizes, \<open>'d\<close> the
  population labels. The block that takes the data apart only moves the items around, so
  it is the same for items that are values and for items that are references to objects.

  In a dict an entry is absent (\<open>None\<close>) or present (\<open>Some\<close>); the two optional entries can
  be present with the Python value \<^verbatim>\<open>None\<close>, hence the second \<open>option\<close>.
  A sequence is given by its length: the constructor \<open>Seq\<close>\<open>n\<close> has \<open>n\<close> items; a sequence
  of more than four items is read like its first four (the code reads no item beyond the
  fourth).
\<close>

record ('a, 'b, 'c, 'd) rasterDict =
  d_spkTimes :: "'a option"
  d_spkInds :: "'b option"
  d_popNumCells :: "'c option option"
  d_popLabels :: "'d option option"

datatype ('a, 'b, 'c, 'd) rasterSeq =
    Seq0
  | Seq1 'a
  | Seq2 'a 'b
  | Seq3 'a 'b "'c option"
  | Seq4 'a 'b "'c option" "'d option"

datatype ('a, 'b, 'c, 'd) rasterShape =
    DictData "('a, 'b, 'c, 'd) rasterDict"
  | SeqData "('a, 'b, 'c, 'd) rasterSeq"

type_synonym 't rasterData = "('t list, int list, int list, string list) rasterShape"

fun seq_len :: "('a, 'b, 'c, 'd) rasterSeq \<Rightarrow> nat" where
  "seq_len Seq0 = 0"
| "seq_len (Seq1 _) = 1"
| "seq_len (Seq2 _ _) = 2"
| "seq_len (Seq3 _ _ _) = 3"
| "seq_len (Seq4 _ _ _ _) = 4"

text \<open>\<^verbatim>\<open>rasterData[k]\<close>: IndexError past the end.\<close>

fun seq_item0 :: "('a, 'b, 'c, 'd) rasterSeq \<Rightarrow> pyerr + 'a" where
  "seq_item0 Seq0 = Inl IndexError"
| "seq_item0 (Seq1 t) = Inr t"
| "seq_item0 (Seq2 t _) = Inr t"
| "seq_item0 (Seq3 t _ _) = Inr t"
| "seq_item0 (Seq4 t _ _ _) = Inr t"

fun seq_item1 :: "('a, 'b, 'c, 'd) rasterSeq \<Rightarrow> pyerr + 'b" where
  "seq_item1 Seq0 = Inl IndexError"
| "seq_item1 (Seq1 _) = Inl IndexError"
| "seq_item1 (Seq2 _ i) = Inr i"
| "seq_item1 (Seq3 _ i _) = Inr i"
| "seq_item1 (Seq4 _ i _ _) = Inr i"

fun seq_item2 :: "('a, 'b, 'c, 'd) rasterSeq \<Rightarrow> pyerr + 'c option" where
  "seq_item2 (Seq3 _ _ n) = Inr n"
| "seq_item2 (Seq4 _ _ n _) = Inr n"
| "seq_item2 _ = Inl IndexError"

fun seq_item3 :: "('a, 'b, 'c, 'd) rasterSeq \<Rightarrow> pyerr + 'd option" where
  "seq_item3 (Seq4 _ _ _ l) = Inr l"
| "seq_item3 _ = Inl IndexError"

subsection \<open>Lines 222-236: taking the raster data apart\<close>

text \<open>
  \<^verbatim>\<open>
  if isinstance(rasterData, dict):
      spkTimes = rasterData['spkTimes']
      spkInds = rasterData['spkInds']
      if 'popNumCells' in rasterData:
          popNumCells = rasterData['popNumCells']
      if 'popLabels' in rasterData:
          popLabels = rasterData['popLabels']
  else:  # Else it must be a list or a tuple
      spkTimes = rasterData[0]
      spkInds = rasterData[1]
      if len(rasterData) > 2:
          popNumCells = rasterData[2]
      if len(rasterData) > 3:
          popLabels = rasterData[3]
  \<close>
  The second and third argument are the values the parameters \<^verbatim>\<open>popNumCells\<close> and
  \<^verbatim>\<open>popLabels\<close> have on entry (\<open>None\<close> is Python's \<^verbatim>\<open>None\<close>, their default). There is no
  comparison of the two lengths anywhere.
\<close>

definition resolveShape ::
  "('a, 'b, 'c, 'd) rasterShape \<Rightarrow> 'c option \<Rightarrow> 'd option \<Rightarrow>
     pyerr + ('a \<times> 'b \<times> 'c option \<times> 'd option)" where
  "resolveShape rasterData popNumCells popLabels =
     (case rasterData of
        DictData d \<Rightarrow>
          (case d_spkTimes d of
             None \<Rightarrow> Inl (KeyError ''spkTimes'')
           | Some spkTimes \<Rightarrow>
               (case d_spkInds d of
                  None \<Rightarrow> Inl (KeyError ''spkInds'')
                | Some spkInds \<Rightarrow>
                    Inr (spkTimes, spkInds,
                         (case d_popNumCells d of None \<Rightarrow> popNumCells | Some v \<Rightarrow> v),
                         (case d_popLabels d of None \<Rightarrow> popLabels | Some v \<Rightarrow> v))))
      | SeqData s \<Rightarrow>
          bindE (seq_item0 s) (\<lambda>spkTimes.
          bindE (seq_item1 s) (\<lambda>spkInds.
          bindE (if seq_len s > 2 then seq_item2 s else Inr popNumCells) (\<lambda>popNumCells'.
          bindE (if seq_len s > 3 then seq_item3 s else Inr popLabels) (\<lambda>popLabels'.
          Inr (spkTimes, spkInds, popNumCells', popLabels'))))))"

subsection \<open>Lines 238-245: population defaults and the cell indices\<close>

text \<open>
  \<^verbatim>\<open>
  if popNumCells is None:
      popNumCells = [len(set(spkInds))]  # assuming one population
  if popLabels is None:
      popLabels = ['Population']
  cellInds = list(set(spkInds))
  \<close>
  Python leaves the order in which a set is iterated open. \<open>cellIndsOf\<close> fixes one order;
  what the development uses of it is that the list is duplicate free and has the
  elements of \<^verbatim>\<open>spkInds\<close>.
\<close>

definition defaultPopNumCells :: "int list \<Rightarrow> int list option \<Rightarrow> int list" where
  "defaultPopNumCells spkInds popNumCells =
     (case popNumCells of None \<Rightarrow> [int (card (set spkInds))] | Some v \<Rightarrow> v)"

definition defaultPopLabels :: "string list option \<Rightarrow> string list" where
  "defaultPopLabels popLabels =
     (case popLabels of None \<Rightarrow> [''Population''] | Some v \<Rightarrow> v)"

definition cellIndsOf :: "int list \<Rightarrow> int list" where
  "cellIndsOf spkInds = remdups spkInds"

subsection \<open>Lines 253-258: ordering the spike indices\<close>

text \<open>
  \<^verbatim>\<open>
  if orderBy == 'gid':
      spkInds = sorted(spkInds)
  else:
      spkInds = [spkInd for spkInd in
                 sorted(spkInds, key=lambda x: sim.net.cells[x].tags[orderBy])]
  \<close>
  Only \<^verbatim>\<open>spkInds\<close> is assigned; \<^verbatim>\<open>spkTimes\<close> is not touched by either branch.
  \<^verbatim>\<open>sorted\<close> is stable, returns a new list, computes the key of every element (in
  order, so the first failing key raises) and then sorts by the keys.
  \<^verbatim>\<open>sim\<close> is a local name of \<^verbatim>\<open>plotRaster\<close>, bound only on the path through lines
  214-220; the second argument is its value, \<open>None\<close> when it is unbound. The look-up
  \<^verbatim>\<open>sim.net.cells[x].tags[orderBy]\<close> is the \<open>cellTag\<close> of the simulation object.
\<close>

record ('t, 'k) simObj =
  prepareRaster :: "('t \<times> 't) option \<Rightarrow> int \<Rightarrow> string \<Rightarrow> pyerr + 't rasterData"
  cellTag :: "int \<Rightarrow> string \<Rightarrow> pyerr + 'k"

definition orderKey :: "('t, 'k) simObj option \<Rightarrow> string \<Rightarrow> int \<Rightarrow> pyerr + 'k" where
  "orderKey sim orderBy x =
     (case sim of None \<Rightarrow> Inl (NameError ''sim'') | Some s \<Rightarrow> cellTag s x orderBy)"

definition orderSpkInds ::
  "string \<Rightarrow> ('t, 'k::linorder) simObj option \<Rightarrow> int list \<Rightarrow> pyerr + int list" where
  "orderSpkInds orderBy sim spkInds =
     (if orderBy = ''gid'' then Inr (sort spkInds)
      else bindE (mapE (orderKey sim orderBy) spkInds) (\<lambda>keys.
             Inr (map snd (sort_key fst (zip keys spkInds)))))"

subsection \<open>Lines 213-220: raster data from the simulation\<close>

text \<open>
  \<^verbatim>\<open>
  if rasterData is None:
      if 'sim' not in kwargs:
          from .. import sim
      else:
          sim = kwargs['sim']
      rasterData = sim.analysis.prepareRaster(include=['allCells'], timeRange=timeRange,
                                              maxSpikes=maxSpikes, orderBy=orderBy)
  \<close>
  This is the only place where \<^verbatim>\<open>timeRange\<close> and \<^verbatim>\<open>maxSpikes\<close> are read: they are
  handed to the collaborator. The simulation object and the plotting helper are not part
  of the sources; they are parameters of the model (\<open>env\<close>, and the \<open>kw_sim\<close> entry of
  the keyword arguments), and each of their calls may raise.
\<close>

record ('t, 'k) env =
  gui :: bool
  module_sim :: "pyerr + ('t, 'k) simObj"
  plotterSetup :: "pyerr + unit"
  saveFig :: "string \<Rightarrow> bool \<Rightarrow> pyerr + unit"

record ('t, 'k) args =
  rasterData :: "'t rasterData option"
  timeRange :: "('t \<times> 't) option"
  maxSpikes :: int
  orderBy :: string
  popNumCellsArg :: "int list option"
  popLabelsArg :: "string list option"
  popColors :: "(string \<Rightarrow> string option) option"
  syncLines :: bool
  legend :: bool
  returnPlotter :: bool
  kw_sim :: "('t, 'k) simObj option"
  kw_rcParams :: "(string \<times> string) list option"
  kw_showFig :: "bool option"
  kw_saveFig :: "bool option"
  kw_filename :: "string option"
  kw_overwrite :: "bool option"

definition obtainRasterData ::
  "('t, 'k) env \<Rightarrow> ('t, 'k) args \<Rightarrow> pyerr + (('t, 'k) simObj option \<times> 't rasterData)" where
  "obtainRasterData e a =
     (case rasterData a of
        Some rd \<Rightarrow> Inr (None, rd)
      | None \<Rightarrow>
          bindE (case kw_sim a of None \<Rightarrow> module_sim e | Some s \<Rightarrow> Inr s) (\<lambda>sim.
          bindE (prepareRaster sim (timeRange a) (maxSpikes a) (orderBy a)) (\<lambda>rd.
          Inr (Some sim, rd))))"

subsection \<open>Lines 213-245: the body before the plotter is created\<close>

text \<open>
  The values the local names \<^verbatim>\<open>spkTimes\<close>, \<^verbatim>\<open>spkInds\<close>, \<^verbatim>\<open>popNumCells\<close> and \<^verbatim>\<open>popLabels\<close>
  hold after line 242, with the value of the local name \<^verbatim>\<open>sim\<close> (\<open>None\<close> when it is
  unbound).
\<close>

record 't raster =
  spkTimes :: "'t list"
  spkInds :: "int list"
  popNumCells :: "int list"
  popLabels :: "string list"

definition prepare ::
  "('t, 'k) env \<Rightarrow> ('t, 'k) args \<Rightarrow> pyerr + (('t, 'k) simObj option \<times> 't raster)" where
  "prepare e a =
     bindE (obtainRasterData e a) (\<lambda>(sim, rd).
     bindE (resolveShape rd (popNumCellsArg a) (popLabelsArg a)) (\<lambda>(ts, inds, pnc, pl).
     Inr (sim, \<lparr>spkTimes = ts, spkInds = inds,
                popNumCells = defaultPopNumCells inds pnc,
                popLabels = defaultPopLabels pl\<rparr>)))"

subsection \<open>Names the body reads without binding them\<close>

text \<open>
  The module binds \<^verbatim>\<open>__gui__\<close>, \<^verbatim>\<open>exception\<close>, \<^verbatim>\<open>loadData\<close>, \<^verbatim>\<open>ScatterPlotter\<close> and
  \<^verbatim>\<open>plotRaster\<close>, and \<^verbatim>\<open>mpatches\<close> only under \<^verbatim>\<open>if __gui__:\<close>. A name that is neither a
  parameter nor assigned in the body is looked up there (and then among the builtins,
  which hold none of the names this file looks up); a name that is not found raises
  NameError. A keyword argument of the same name does not bind it: it is an entry of the
  dict \<^verbatim>\<open>kwargs\<close>.
\<close>

definition module_globals :: "bool \<Rightarrow> string list" where
  "module_globals g =
     [''__gui__''] @ (if g then [''mpatches''] else []) @
     [''exception'', ''loadData'', ''ScatterPlotter'', ''plotRaster'']"

definition load_global :: "bool \<Rightarrow> string \<Rightarrow> pyerr + unit" where
  "load_global g n = (if n \<in> set (module_globals g) then Inr () else Inl (NameError n))"

subsection \<open>Lines 263-268: synchrony lines\<close>

text \<open>
  \<^verbatim>\<open>
  if syncLines:
      for cellInd in cellInds:
          spike_times = [spkTimes[i] for i, ind in enumerate(spkInds) if ind == cellInd]
          for spike_time in spike_times:
              axis.vlines(spike_time, ymin=0, ymax=len(cellInds), colors='gray',
                          linestyles='dotted', linewidth=linewidth)
  \<close>
  \<^verbatim>\<open>spkInds\<close> is the ordered list of lines 253-258 here, \<^verbatim>\<open>spkTimes\<close> the list as it came
  in. \<^verbatim>\<open>spkTimes[i]\<close> raises IndexError past the end of \<^verbatim>\<open>spkTimes\<close>. Each call of
  \<^verbatim>\<open>vlines\<close> evaluates the name \<^verbatim>\<open>linewidth\<close>.
\<close>

definition spike_times :: "'t list \<Rightarrow> int list \<Rightarrow> int \<Rightarrow> pyerr + 't list" where
  "spike_times ts inds cellInd =
     mapE (\<lambda>i. if i < length ts then Inr (ts ! i) else Inl IndexError)
          (filter (\<lambda>i. inds ! i = cellInd) [0..<length inds])"

record 't vline =
  vx :: 't
  ymin :: int
  ymax :: int

definition drawSyncLines ::
  "bool \<Rightarrow> int list \<Rightarrow> 't list \<Rightarrow> int list \<Rightarrow> pyerr + 't vline list" where
  "drawSyncLines g cellInds ts inds =
     bindE (mapE (\<lambda>cellInd.
              bindE (spike_times ts inds cellInd) (\<lambda>sts.
              mapE (\<lambda>spike_time.
                      bindE (load_global g ''linewidth'') (\<lambda>_.
                      Inr \<lparr>vx = spike_time, ymin = 0, ymax = int (length cellInds)\<rparr>))
                   sts))
            cellInds)
       (\<lambda>drawn. Inr (concat drawn))"

text \<open>The spike times the two loops visit, in order: the calls of \<^verbatim>\<open>vlines\<close> attempted.\<close>

definition syncLineTimes :: "int list \<Rightarrow> 't list \<Rightarrow> int list \<Rightarrow> pyerr + 't list" where
  "syncLineTimes cellInds ts inds =
     bindE (mapE (spike_times ts inds) cellInds) (\<lambda>tss. Inr (concat tss))"

subsection \<open>Lines 270-274: the legend\<close>

text \<open>
  \<^verbatim>\<open>
  if legend:
      legendHandles = [mpatches.Patch(color=popColors[pop],
          label=f'{pop} ({len([x for x in spkInds
                 if x in range(sum(popNumCells[:i]), sum(popNumCells[:i + 1]))])})')
                       for i, pop in enumerate(popLabels)]
      axis.legend(handles=legendHandles, **kwargs.get('legendKwargs', {}))
  \<close>
  A slice \<^verbatim>\<open>xs[:i]\<close> is \<open>take i xs\<close>; an integer is in \<^verbatim>\<open>range(a, b)\<close> when it is at least
  \<open>a\<close> and below \<open>b\<close>. \<^verbatim>\<open>popColors\<close> is \<^verbatim>\<open>None\<close> by default, and subscripting \<^verbatim>\<open>None\<close> is
  a TypeError; a label that is not a key of the dict is a KeyError.
\<close>

definition digit_chars :: string where
  "digit_chars = ''0123456789''"

fun str_nat :: "nat \<Rightarrow> string" where
  "str_nat n =
     (if n < 10 then [digit_chars ! n] else str_nat (n div 10) @ [digit_chars ! (n mod 10)])"

declare str_nat.simps [simp del]

definition popCount :: "int list \<Rightarrow> int list \<Rightarrow> nat \<Rightarrow> nat" where
  "popCount inds pnc i =
     length (filter (\<lambda>x. sum_list (take i pnc) \<le> x \<and> x < sum_list (take (i + 1) pnc)) inds)"

record legendHandle =
  color :: string
  label :: string

definition legendHandles ::
  "bool \<Rightarrow> (string \<Rightarrow> string option) option \<Rightarrow> int list \<Rightarrow> int list \<Rightarrow> string list \<Rightarrow>
     pyerr + legendHandle list" where
  "legendHandles g pcolors inds pnc pls =
     mapE (\<lambda>(i, pop).
             bindE (load_global g ''mpatches'') (\<lambda>_.
             bindE (case pcolors of
                      None \<Rightarrow> Inl TypeError
                    | Some pc \<Rightarrow> (case pc pop of None \<Rightarrow> Inl (KeyError pop) | Some c \<Rightarrow> Inr c))
               (\<lambda>c.
             Inr \<lparr>color = c,
                  label = pop @ '' ('' @ str_nat (popCount inds pnc i) @ '')''\<rparr>)))
          (enumerate 0 pls)"

subsection \<open>The whole body, lines 213-288\<close>

text \<open>
  What a call that returns has done is collected in an \<open>outcome\<close>: the data handed to
  \<^verbatim>\<open>axis.scatter\<close>, the vertical lines, the legend handles, the entries written to
  \<^verbatim>\<open>plt.rcParams\<close>, whether \<^verbatim>\<open>plt.show()\<close> ran, the file saved, and which of \<^verbatim>\<open>fig\<close> and
  \<^verbatim>\<open>plotter\<close> is returned.

  \<open>plotterSetup\<close> of the environment stands for lines 248-250
  (\<^verbatim>\<open>ScatterPlotter()\<close>, \<^verbatim>\<open>plotter.createFig()\<close>, \<^verbatim>\<open>plotter.getAxis(axis)\<close>) and the look-up of
  the attribute \<^verbatim>\<open>plotter.setAttributes\<close>, which Python evaluates before the arguments of
  the call of line 251. The name \<^verbatim>\<open>plt\<close> of lines 279 and 283 is bound nowhere.
\<close>

datatype returned = Fig | Plotter

record 't outcome =
  ret :: returned
  scatterX :: "'t list"
  scatterY :: "int list"
  vlinesDrawn :: "'t vline list"
  legendDrawn :: "legendHandle list option"
  rcParamsSet :: "(string \<times> string) list"
  shown :: bool
  saved :: "(string \<times> bool) option"

definition plotRaster :: "('t, 'k::linorder) env \<Rightarrow> ('t, 'k) args \<Rightarrow> pyerr + 't outcome" where
  "plotRaster e a =
     bindE (prepare e a) (\<lambda>(sim, r).
     bindE (Inr (cellIndsOf (spkInds r))) (\<lambda>cellInds.
     bindE (plotterSetup e) (\<lambda>_.
     bindE (load_global (gui e) ''title'') (\<lambda>_.
     bindE (load_global (gui e) ''xlabel'') (\<lambda>_.
     bindE (load_global (gui e) ''ylabel'') (\<lambda>_.
     bindE (orderSpkInds (orderBy a) sim (spkInds r)) (\<lambda>inds'.
     bindE (load_global (gui e) ''s'') (\<lambda>_.
     bindE (load_global (gui e) ''marker'') (\<lambda>_.
     bindE (load_global (gui e) ''linewidth'') (\<lambda>_.
     bindE (if syncLines a then drawSyncLines (gui e) cellInds (spkTimes r) inds'
            else Inr []) (\<lambda>vls.
     bindE (if legend a
            then bindE (legendHandles (gui e) (popColors a) inds' (popNumCells r) (popLabels r))
                   (\<lambda>hs. Inr (Some hs))
            else Inr None) (\<lambda>leg.
     bindE (case kw_rcParams a of
              None \<Rightarrow> Inr []
            | Some ps \<Rightarrow> mapE (\<lambda>p. bindE (load_global (gui e) ''plt'') (\<lambda>_. Inr p)) ps) (\<lambda>rc.
     bindE (if kw_showFig a = Some True
            then bindE (load_global (gui e) ''plt'') (\<lambda>_. Inr True)
            else Inr False) (\<lambda>sh.
     bindE (if kw_saveFig a = Some True
            then bindE (Inr (case kw_filename a of None \<Rightarrow> ''rasterPlot.png'' | Some f \<Rightarrow> f,
                             case kw_overwrite a of None \<Rightarrow> True | Some b \<Rightarrow> b)) (\<lambda>(fname, ow).
                 bindE (saveFig e fname ow) (\<lambda>_. Inr (Some (fname, ow))))
            else Inr None) (\<lambda>sv.
     Inr \<lparr>ret = (if returnPlotter a then Plotter else Fig),
          scatterX = spkTimes r, scatterY = inds',
          vlinesDrawn = vls, legendDrawn = leg,
          rcParamsSet = rc, shown = sh, saved = sv\<rparr>)))))))))))))))"

subsection \<open>A call with the defaults of the signature\<close>

text \<open>
  \<^verbatim>\<open>
  def plotRaster(rasterData=None, axis=None, timeRange=None, maxSpikes=1e8, orderBy='gid',
                 popRates=True, popNumCells=None, popLabels=None, popColors=None,
                 syncLines=False, colorbyPhase=None, legend=True, colorList=None,
                 orderInverse=False, returnPlotter=False, **kwargs)
  \<close>
  The parameters \<^verbatim>\<open>popRates\<close>, \<^verbatim>\<open>colorbyPhase\<close>, \<^verbatim>\<open>colorList\<close> and \<^verbatim>\<open>orderInverse\<close> are read
  nowhere in the body, and \<^verbatim>\<open>axis\<close> only goes to \<^verbatim>\<open>plotter.getAxis\<close>; they are not fields
  of \<open>args\<close>.
\<close>

definition defaultArgs :: "('t, 'k) args" where
  "defaultArgs =
     \<lparr>rasterData = None, timeRange = None, maxSpikes = 100000000, orderBy = ''gid'',
      popNumCellsArg = None, popLabelsArg = None, popColors = None,
      syncLines = False, legend = True, returnPlotter = False,
      kw_sim = None, kw_rcParams = None, kw_showFig = None, kw_saveFig = None,
      kw_filename = None, kw_overwrite = None\<rparr>"

text \<open>
  An environment in which every collaborator does its work: the GUI imports are there,
  the plotter is created, files are saved; no simulation has been run.
\<close>

definition idleEnv :: "(real, int) env" where
  "idleEnv =
     \<lparr>gui = True, module_sim = Inl (CollaboratorError ''no simulation''),
      plotterSetup = Inr (), saveFig = (\<lambda>_ _. Inr ())\<rparr>"

definition listInput :: "'t list \<Rightarrow> int list \<Rightarrow> ('t, 'k) args" where
  "listInput ts inds = defaultArgs\<lparr>rasterData := Some (SeqData (Seq2 ts inds))\<rparr>"

subsection \<open>The whole body with the state it writes\<close>

text \<open>
  \<open>plotRaster\<close> gives what a call returns or raises. To state what a call, also one that
  raises, has written by then, the body is embedded once more as a program over the state
  that its statements write: the entries of \<^verbatim>\<open>plt.rcParams\<close> (line 279), what has been drawn
  on the axis, which may be the caller's (\<^verbatim>\<open>axis.scatter\<close>, \<^verbatim>\<open>axis.vlines\<close>, \<^verbatim>\<open>axis.legend\<close>,
  lines 261, 268 and 274), the number of calls of \<^verbatim>\<open>plt.show()\<close> (line 283) and the files
  saved (line 286). Every other statement of the body binds a local name; no element of a
  list is assigned and no method of a list is called. A step is an expression that may
  raise and writes nothing (\<open>evalW\<close>) or a write (\<open>writeW\<close>); a step that raises ends
  the program in the state reached. What the collaborators called before line 251 do on
  their own (the simulation, the creation of the plotter and of the figure) is theirs and
  is not part of this state.
\<close>

datatype 't artist =
    Scatter "'t list" "int list"
  | VLine "'t vline"
  | Legend "legendHandle list"

record 't world =
  w_rcParams :: "string \<Rightarrow> string option"
  w_axis :: "'t artist list"
  w_shown :: nat
  w_saved :: "(string \<times> bool) list"

type_synonym ('t, 'a) prog = "'t world \<Rightarrow> (pyerr + 'a) \<times> 't world"

definition bindW :: "('t, 'a) prog \<Rightarrow> ('a \<Rightarrow> ('t, 'b) prog) \<Rightarrow> ('t, 'b) prog" where
  "bindW m f w = (case m w of (Inl err, w') \<Rightarrow> (Inl err, w') | (Inr v, w') \<Rightarrow> f v w')"

definition evalW :: "pyerr + 'a \<Rightarrow> ('t, 'a) prog" where
  "evalW x w = (x, w)"

definition writeW :: "('t world \<Rightarrow> 't world) \<Rightarrow> ('t, unit) prog" where
  "writeW f w = (Inr (), f w)"

text \<open>A \<^verbatim>\<open>for\<close> loop: the body for each element in turn, until one raises.\<close>

primrec forW :: "('a \<Rightarrow> ('t, unit) prog) \<Rightarrow> 'a list \<Rightarrow> ('t, unit) prog" where
  "forW body [] = evalW (Inr ())"
| "forW body (x # xs) = bindW (body x) (\<lambda>_. forW body xs)"

definition plotRaster_w :: "('t, 'k::linorder) env \<Rightarrow> ('t, 'k) args \<Rightarrow> ('t, returned) prog" where
  "plotRaster_w e a =
     bindW (evalW (prepare e a)) (\<lambda>(sim, r).
     bindW (evalW (Inr (cellIndsOf (spkInds r)))) (\<lambda>cellInds.
     bindW (evalW (plotterSetup e)) (\<lambda>_.
     bindW (evalW (load_global (gui e) ''title'')) (\<lambda>_.
     bindW (evalW (load_global (gui e) ''xlabel'')) (\<lambda>_.
     bindW (evalW (load_global (gui e) ''ylabel'')) (\<lambda>_.
     bindW (evalW (orderSpkInds (orderBy a) sim (spkInds r))) (\<lambda>inds'.
     bindW (evalW (load_global (gui e) ''s'')) (\<lambda>_.
     bindW (evalW (load_global (gui e) ''marker'')) (\<lambda>_.
     bindW (evalW (load_global (gui e) ''linewidth'')) (\<lambda>_.
     bindW (writeW (\<lambda>w. w\<lparr>w_axis := w_axis w @ [Scatter (spkTimes r) inds']\<rparr>)) (\<lambda>_.
     bindW (if syncLines a
            then forW (\<lambda>cellInd.
                   bindW (evalW (spike_times (spkTimes r) inds' cellInd)) (\<lambda>sts.
                   forW (\<lambda>spike_time.
                          bindW (evalW (load_global (gui e) ''linewidth'')) (\<lambda>_.
                          writeW (\<lambda>w. w\<lparr>w_axis := w_axis w @
                            [VLine \<lparr>vx = spike_time, ymin = 0,
                                    ymax = int (length cellInds)\<rparr>]\<rparr>)))
                        sts))
                 cellInds
            else evalW (Inr ())) (\<lambda>_.
     bindW (if legend a
            then bindW (evalW (legendHandles (gui e) (popColors a) inds'
                                 (popNumCells r) (popLabels r))) (\<lambda>hs.
                 writeW (\<lambda>w. w\<lparr>w_axis := w_axis w @ [Legend hs]\<rparr>))
            else evalW (Inr ())) (\<lambda>_.
     bindW (case kw_rcParams a of
              None \<Rightarrow> evalW (Inr ())
            | Some ps \<Rightarrow>
                forW (\<lambda>(param, val).
                       bindW (evalW (load_global (gui e) ''plt'')) (\<lambda>_.
                       writeW (\<lambda>w. w\<lparr>w_rcParams := (w_rcParams w)(param \<mapsto> val)\<rparr>)))
                     ps) (\<lambda>_.
     bindW (if kw_showFig a = Some True
            then bindW (evalW (load_global (gui e) ''plt'')) (\<lambda>_.
                 writeW (\<lambda>w. w\<lparr>w_shown := Suc (w_shown w)\<rparr>))
            else evalW (Inr ())) (\<lambda>_.
     bindW (if kw_saveFig a = Some True
            then bindW (evalW (Inr (case kw_filename a of None \<Rightarrow> ''rasterPlot.png'' | Some f \<Rightarrow> f,
                                    case kw_overwrite a of None \<Rightarrow> True | Some b \<Rightarrow> b)))
                   (\<lambda>(fname, ow).
                 bindW (evalW (saveFig e fname ow)) (\<lambda>_.
                 writeW (\<lambda>w. w\<lparr>w_saved := w_saved w @ [(fname, ow)]\<rparr>)))
            else evalW (Inr ())) (\<lambda>_.
     evalW (Inr (if returnPlotter a then Plotter else Fig))))))))))))))))))"

text \<open>
  Ambient simulations for examples: a simulation whose \<^verbatim>\<open>prepareRaster\<close> returns the given
  times and indices as a pair, and the environment in which \<^verbatim>\<open>from .. import sim\<close> gives
  a simulation.
\<close>

definition simWith :: "real list \<Rightarrow> int list \<Rightarrow> (real, int) simObj" where
  "simWith ts inds =
     \<lparr>prepareRaster = (\<lambda>_ _ _. Inr (SeqData (Seq2 ts inds))), cellTag = (\<lambda>x _. Inr x)\<rparr>"

definition ambientEnv :: "(real, int) simObj \<Rightarrow> (real, int) env" where
  "ambientEnv s = idleEnv\<lparr>module_sim := Inr s\<rparr>"

definition freshWorld :: "'t world" where
  "freshWorld = \<lparr>w_rcParams = Map.empty, w_axis = [], w_shown = 0, w_saved = []\<rparr>"

section \<open>Properties\<close>

lemma bindE_Inr_iff:
  "bindE m f = Inr y \<longleftrightarrow> (\<exists>v. m = Inr v \<and> f v = Inr y)"
  by (cases m) (simp_all add: bindE_def)

lemma mapE_Inr_length: "mapE f xs = Inr ys \<Longrightarrow> length ys = length xs"
  by (induction xs arbitrary: ys) (auto split: sum.splits)

lemma mapE_Inr_all2: "mapE f xs = Inr ys \<Longrightarrow> list_all2 (\<lambda>x y. f x = Inr y) xs ys"
  by (induction xs arbitrary: ys) (auto split: sum.splits)

lemma mapE_total: "(\<And>x. x \<in> set xs \<Longrightarrow> f x = Inr (g x)) \<Longrightarrow> mapE f xs = Inr (map g xs)"
  by (induction xs) auto

subsection \<open>The body before the plotter is created\<close>

lemma orderSpkInds_gid: "orderSpkInds ''gid'' sim inds = Inr (sort inds)"
  by (simp add: orderSpkInds_def)

lemma obtain_given: "rasterData a = Some rd \<Longrightarrow> obtainRasterData e a = Inr (None, rd)"
  by (simp add: obtainRasterData_def)

lemma prepare_Inr_D:
  assumes "prepare e a = Inr (sim, r)"
  shows "\<exists>rd ts inds pnc pl.
           obtainRasterData e a = Inr (sim, rd) \<and>
           resolveShape rd (popNumCellsArg a) (popLabelsArg a) = Inr (ts, inds, pnc, pl) \<and>
           r = \<lparr>spkTimes = ts, spkInds = inds, popNumCells = defaultPopNumCells inds pnc,
                popLabels = defaultPopLabels pl\<rparr>"
  using assms
  by (auto simp: prepare_def bindE_Inr_iff)

lemma prepare_given:
  assumes "rasterData a = Some rd"
    and "resolveShape rd (popNumCellsArg a) (popLabelsArg a) = Inr (ts, inds, pnc, pl)"
  shows "prepare e a =
           Inr (None, \<lparr>spkTimes = ts, spkInds = inds,
                       popNumCells = defaultPopNumCells inds pnc,
                       popLabels = defaultPopLabels pl\<rparr>)"
  using assms
  by (simp add: prepare_def obtain_given bindE_def)

lemma resolveShape_Seq2: "resolveShape (SeqData (Seq2 ts inds)) p q = Inr (ts, inds, p, q)"
  by (simp add: resolveShape_def bindE_def)

lemma resolveShape_Seq4:
  "resolveShape (SeqData (Seq4 ts inds n l)) p q = Inr (ts, inds, n, l)"
  by (simp add: resolveShape_def bindE_def)

lemma resolveShape_both:
  assumes "case rd of
             DictData d \<Rightarrow> d_spkTimes d = Some ts \<and> d_spkInds d = Some inds
           | SeqData s \<Rightarrow> seq_item0 s = Inr ts \<and> seq_item1 s = Inr inds"
  shows "\<exists>pnc pl. resolveShape rd p q = Inr (ts, inds, pnc, pl)"
proof (cases rd)
  case (DictData d)
  with assms show ?thesis by (simp add: resolveShape_def)
next
  case (SeqData s)
  with assms show ?thesis
    by (cases s) (simp_all add: resolveShape_def bindE_def)
qed

lemma listInput_sel:
  "rasterData (listInput ts inds) = Some (SeqData (Seq2 ts inds))"
  "orderBy (listInput ts inds) = ''gid''"
  "popNumCellsArg (listInput ts inds) = None"
  "popLabelsArg (listInput ts inds) = None"
  by (simp_all add: listInput_def defaultArgs_def)

lemma defaultPopNumCells_None:
  "defaultPopNumCells inds None = [int (length (remdups inds))]"
  by (simp only: defaultPopNumCells_def option.case List.card_set)

lemma prepare_listInput:
  "prepare e (listInput ts inds) =
     Inr (None, \<lparr>spkTimes = ts, spkInds = inds,
                 popNumCells = [int (length (remdups inds))],
                 popLabels = [''Population'']\<rparr>)"
  using prepare_given [of "listInput ts inds" "SeqData (Seq2 ts inds)" ts inds None None e]
  by (simp add: listInput_sel resolveShape_Seq2 defaultPopNumCells_None defaultPopLabels_def)

subsection \<open>Where the call fails\<close>

lemma unbound_names:
  "load_global g ''title'' = Inl (NameError ''title'')"
  "load_global g ''xlabel'' = Inl (NameError ''xlabel'')"
  "load_global g ''ylabel'' = Inl (NameError ''ylabel'')"
  "load_global g ''s'' = Inl (NameError ''s'')"
  "load_global g ''marker'' = Inl (NameError ''marker'')"
  "load_global g ''linewidth'' = Inl (NameError ''linewidth'')"
  "load_global g ''plt'' = Inl (NameError ''plt'')"
  by (simp_all add: load_global_def module_globals_def)

lemma plotRaster_fails_at:
  "plotRaster e a =
     (case prepare e a of
        Inl err \<Rightarrow> Inl err
      | Inr x \<Rightarrow> (case plotterSetup e of Inl err \<Rightarrow> Inl err | Inr u \<Rightarrow> Inl (NameError ''title'')))"
  by (simp add: plotRaster_def bindE_def unbound_names split: sum.splits prod.splits)

lemma plotRaster_listInput:
  "plotterSetup e = Inr () \<Longrightarrow> plotRaster e (listInput ts inds) = Inl (NameError ''title'')"
  by (simp add: plotRaster_fails_at prepare_listInput)

lemma plotterSetup_idleEnv: "plotterSetup idleEnv = Inr ()"
  by (simp add: idleEnv_def)

text \<open>The program over the state ends where \<open>plotRaster\<close> ends, in the state it started in.\<close>

lemma plotRaster_w_fails_at:
  "plotRaster_w e a w =
     (case prepare e a of
        Inl err \<Rightarrow> (Inl err, w)
      | Inr x \<Rightarrow>
          (case plotterSetup e of
             Inl err \<Rightarrow> (Inl err, w)
           | Inr u \<Rightarrow> (Inl (NameError ''title''), w)))"
  by (simp add: plotRaster_w_def bindW_def evalW_def unbound_names
      split: sum.splits prod.splits)

lemma plotRaster_w_result:
  "fst (plotRaster_w e a w) =
     (case plotRaster e a of Inl err \<Rightarrow> Inl err | Inr out \<Rightarrow> Inr (ret out))"
  by (simp add: plotRaster_w_fails_at plotRaster_fails_at split: sum.splits)

subsection \<open>The call as a whole\<close>

text \<open>
  C2. The claim: whatever the input, the body reaches the unbound names of lines 251 and
  261, so that every call fails with a NameError. Not every call gets that far: raster
  data without the times raises the KeyError of line 224, and a sequence without a second
  item the IndexError of line 232.
\<close>

theorem early_failure_is_no_NameError:
  "plotRaster idleEnv
     (defaultArgs\<lparr>rasterData := Some (DictData \<lparr>d_spkTimes = None, d_spkInds = Some [0, 1],
        d_popNumCells = None, d_popLabels = None\<rparr>)\<rparr>) = Inl (KeyError ''spkTimes'') \<and>
   plotRaster idleEnv (defaultArgs\<lparr>rasterData := Some (SeqData (Seq1 [0.1, 0.2]))\<rparr>) =
     Inl IndexError"
  by (simp add: plotRaster_fails_at prepare_def obtain_given resolveShape_def bindE_def)

text \<open>
  C2, as the code has it: no call returns. A call fails with the exception of lines
  213-245 if there is one (the collaborator's, or the KeyError or IndexError of a missing
  item), else with the plotter's if its set-up fails, and otherwise with the NameError for
  \<^verbatim>\<open>title\<close> at line 251. The names \<^verbatim>\<open>s\<close>, \<^verbatim>\<open>marker\<close> and \<^verbatim>\<open>linewidth\<close> of line 261 are
  unbound as well, and never reached.
\<close>

theorem plotRaster_never_returns:
  "(\<exists>err. plotRaster e a = Inl err) \<and>
   plotRaster e a =
     (case prepare e a of
        Inl err \<Rightarrow> Inl err
      | Inr x \<Rightarrow> (case plotterSetup e of Inl err \<Rightarrow> Inl err | Inr u \<Rightarrow> Inl (NameError ''title''))) \<and>
   load_global (gui e) ''s'' = Inl (NameError ''s'') \<and>
   load_global (gui e) ''marker'' = Inl (NameError ''marker'') \<and>
   load_global (gui e) ''linewidth'' = Inl (NameError ''linewidth'')"
  by (simp add: plotRaster_fails_at unbound_names split: sum.splits)

theorem plotRaster_never_returns_witness:
  "plotRaster idleEnv (listInput [0.1, 0.3, 0.2] [2, 0, 1]) = Inl (NameError ''title'')"
proof -
  let ?a = "listInput [0.1, 0.3, 0.2] [2, 0, 1] :: (real, int) args"
  have p: "prepare idleEnv ?a =
      Inr (None, \<lparr>spkTimes = [0.1, 0.3, 0.2], spkInds = [2, 0, 1], popNumCells = [3],
                  popLabels = [''Population'']\<rparr>)"
    by (simp add: prepare_def obtain_given listInput_sel resolveShape_Seq2 bindE_def
        defaultPopNumCells_None defaultPopLabels_def)
  have s: "plotterSetup idleEnv = Inr ()" by (simp add: idleEnv_def)
  from plotRaster_never_returns [of idleEnv ?a] show ?thesis
    unfolding p s by simp
qed

subsection \<open>Ordering by index\<close>

lemma orderSpkInds_gid_sorted:
  "orderSpkInds ''gid'' sim inds = Inr inds' \<Longrightarrow> sorted inds' \<and> mset inds' = mset inds"
  by (auto simp: orderSpkInds_gid)

text \<open>
  C1. The claim: with \<^verbatim>\<open>orderBy\<close> the index (\<^verbatim>\<open>'gid'\<close> in the code) the pairs of time and
  index are sorted by index, so that times \<open>[0.1, 0.3, 0.2]\<close> with indices \<open>[2, 0, 1]\<close>
  come out as indices \<open>[0, 1, 2]\<close> with times \<open>[0.3, 0.2, 0.1]\<close>. On that input the call
  holds the times and the indices as passed after line 245 and raises at line 251; nothing
  comes out. The statement that is to order the data, line 255, sorts the indices alone:
  it would turn the indices into \<open>[0, 1, 2]\<close> and leave the times \<open>[0.1, 0.3, 0.2]\<close>, which
  are not the times the claim asks for, and the pairs would not be the pairs of the input.
\<close>

theorem gid_sorts_indices_alone:
  "prepare idleEnv (listInput [0.1, 0.3, 0.2] [2, 0, 1]) =
     Inr (None, \<lparr>spkTimes = [0.1, 0.3, 0.2], spkInds = [2, 0, 1], popNumCells = [3],
                 popLabels = [''Population'']\<rparr>) \<and>
   plotRaster idleEnv (listInput [0.1, 0.3, 0.2] [2, 0, 1]) = Inl (NameError ''title'') \<and>
   orderSpkInds ''gid'' (None :: (real, int) simObj option) [2, 0, 1] = Inr [0, 1, 2] \<and>
   [0.1, 0.3, 0.2] \<noteq> [0.3, 0.2, 0.1 :: real] \<and>
   mset (zip [0.1, 0.3, 0.2 :: real] [0, 1, 2 :: int]) \<noteq> mset (zip [0.1, 0.3, 0.2] [2, 0, 1])"
proof -
  have "(0.1 :: real, 0 :: int) \<in># mset (zip [0.1, 0.3, 0.2] [0, 1, 2])" by simp
  moreover have "(0.1 :: real, 0 :: int) \<notin># mset (zip [0.1, 0.3, 0.2] [2, 0, 1])" by simp
  ultimately have "mset (zip [0.1, 0.3, 0.2 :: real] [0, 1, 2 :: int]) \<noteq>
      mset (zip [0.1, 0.3, 0.2] [2, 0, 1])"
    by metis
  then show ?thesis
    by (simp add: prepare_listInput plotRaster_listInput plotterSetup_idleEnv orderSpkInds_gid)
qed

text \<open>
  C7. The claim: for every valid input with \<^verbatim>\<open>orderBy\<close> the index, the indices that come
  out are non-decreasing. For the valid input of times \<open>[0.5, 0.25, 0.75]\<close> with indices
  \<open>[4, 1, 4]\<close> nothing comes out: the call raises at line 251, before the
  \<^verbatim>\<open>sorted(spkInds)\<close> of line 255 (which would give \<open>[1, 4, 4]\<close>) is reached, and
  \<^verbatim>\<open>spkInds\<close> holds the indices as passed, which are not sorted.
\<close>

theorem gid_sort_never_reached:
  "prepare idleEnv (listInput [0.5, 0.25, 0.75] [4, 1, 4]) =
     Inr (None, \<lparr>spkTimes = [0.5, 0.25, 0.75], spkInds = [4, 1, 4], popNumCells = [2],
                 popLabels = [''Population'']\<rparr>) \<and>
   \<not> sorted [4, 1, 4 :: int] \<and>
   plotRaster idleEnv (listInput [0.5, 0.25, 0.75] [4, 1, 4]) = Inl (NameError ''title'') \<and>
   orderSpkInds ''gid'' (None :: (real, int) simObj option) [4, 1, 4] = Inr [1, 4, 4]"
  by (simp add: prepare_listInput plotRaster_listInput plotterSetup_idleEnv orderSpkInds_gid)

subsection \<open>Population defaults\<close>

text \<open>
  C6. When the raster data carries no population sizes and no labels and the parameters
  \<^verbatim>\<open>popNumCells\<close> and \<^verbatim>\<open>popLabels\<close> are left at \<^verbatim>\<open>None\<close> (so that both are \<^verbatim>\<open>None\<close> after
  lines 222-236), lines 239-242 set the sizes to the one-element list of the number of
  distinct indices and the labels to \<open>[''Population'']\<close>. For the indices
  \<open>[0, 1, 2, 2, 1]\<close> the sizes are \<open>[3]\<close>.
\<close>

theorem population_defaults:
  assumes "prepare e a = Inr (sim, r)"
    and "obtainRasterData e a = Inr (sim', rd)"
    and "resolveShape rd (popNumCellsArg a) (popLabelsArg a) = Inr (ts, inds, None, None)"
  shows "popNumCells r = [int (card (set inds))] \<and> popLabels r = [''Population'']"
  using prepare_Inr_D [OF assms(1)] assms(2,3)
  by (auto simp: defaultPopNumCells_def defaultPopLabels_def)

theorem population_defaults_witness:
  "prepare idleEnv (listInput [1, 2, 3, 4, 5] [0, 1, 2, 2, 1]) =
     Inr (None, \<lparr>spkTimes = [1, 2, 3, 4, 5], spkInds = [0, 1, 2, 2, 1], popNumCells = [3],
                 popLabels = [''Population'']\<rparr>) \<and>
   int (card (set [0, 1, 2, 2, 1 :: int])) = 3"
proof -
  let ?a = "listInput [1, 2, 3, 4, 5] [0, 1, 2, 2, 1] :: (real, int) args"
  have n: "prepare idleEnv ?a =
     Inr (None, \<lparr>spkTimes = [1, 2, 3, 4, 5], spkInds = [0, 1, 2, 2, 1], popNumCells = [3],
                 popLabels = [''Population'']\<rparr>)"
    by (simp add: prepare_listInput)
  have ob: "obtainRasterData idleEnv ?a =
      Inr (None, SeqData (Seq2 [1, 2, 3, 4, 5] [0, 1, 2, 2, 1]))"
    by (simp add: obtain_given listInput_sel)
  have rs: "resolveShape (SeqData (Seq2 [1, 2, 3, 4, 5] [0, 1, 2, 2, 1]))
              (popNumCellsArg ?a) (popLabelsArg ?a) =
            Inr ([1, 2, 3, 4, 5], [0, 1, 2, 2, 1], None, None)"
    by (simp add: resolveShape_Seq2 listInput_sel)
  from population_defaults [OF n ob rs] n show ?thesis by simp
qed

subsection \<open>Malformed input\<close>

text \<open>
  C3. The claim: raw input whose times and indices differ in length is refused with
  MalformedInputError. The code compares no lengths and has no such error: times of
  length 3 with indices of length 2 pass lines 222-245 like any other input, and the call
  ends as it does for times and indices of equal length, in the NameError of line 251.
\<close>

theorem length_mismatch_accepted:
  "length [0.1, 0.2, 0.3 :: real] \<noteq> length [0, 1 :: int] \<and>
   prepare idleEnv (listInput [0.1, 0.2, 0.3] [0, 1]) =
     Inr (None, \<lparr>spkTimes = [0.1, 0.2, 0.3], spkInds = [0, 1], popNumCells = [2],
                 popLabels = [''Population'']\<rparr>) \<and>
   plotRaster idleEnv (listInput [0.1, 0.2, 0.3] [0, 1]) = Inl (NameError ''title'') \<and>
   plotRaster idleEnv (listInput [0.1, 0.2, 0.3] [0, 1, 2]) = Inl (NameError ''title'')"
  by (simp add: prepare_listInput plotRaster_listInput plotterSetup_idleEnv)

text \<open>
  C3, as the code has it: a difference of the lengths is not detected. For every raw
  input that holds a sequence of times and a sequence of indices, of equal lengths or not,
  lines 222-245 bind \<^verbatim>\<open>spkTimes\<close> and \<^verbatim>\<open>spkInds\<close> to the sequences as given, and the call ends
  as it ends for any other such input.
\<close>

theorem no_length_check:
  assumes "rasterData a = Some rd"
    and "case rd of
           DictData d \<Rightarrow> d_spkTimes d = Some ts \<and> d_spkInds d = Some inds
         | SeqData s \<Rightarrow> seq_item0 s = Inr ts \<and> seq_item1 s = Inr inds"
    and "rasterData a' = Some rd'"
    and "case rd' of
           DictData d \<Rightarrow> d_spkTimes d = Some ts' \<and> d_spkInds d = Some inds'
         | SeqData s \<Rightarrow> seq_item0 s = Inr ts' \<and> seq_item1 s = Inr inds'"
  shows "(\<exists>r. prepare e a = Inr (None, r) \<and> spkTimes r = ts \<and> spkInds r = inds) \<and>
         plotRaster e a = plotRaster e a'"
proof -
  from resolveShape_both [OF assms(2)] obtain pnc pl
    where "resolveShape rd (popNumCellsArg a) (popLabelsArg a) = Inr (ts, inds, pnc, pl)"
    by blast
  from prepare_given [OF assms(1) this, of e]
  have 1: "\<exists>r. prepare e a = Inr (None, r) \<and> spkTimes r = ts \<and> spkInds r = inds"
    by simp
  from resolveShape_both [OF assms(4)] obtain pnc' pl'
    where "resolveShape rd' (popNumCellsArg a') (popLabelsArg a') = Inr (ts', inds', pnc', pl')"
    by blast
  from prepare_given [OF assms(3) this, of e]
  have 2: "\<exists>r. prepare e a' = Inr (None, r)"
    by simp
  from 1 2 have "plotRaster e a = plotRaster e a'"
    by (auto simp: plotRaster_fails_at)
  with 1 show ?thesis by simp
qed

theorem no_length_check_witness:
  "(\<exists>r. prepare idleEnv (listInput [0.1, 0.2, 0.3] [1, 0]) = Inr (None, r) \<and>
        spkTimes r = [0.1, 0.2, 0.3] \<and> spkInds r = [1, 0] \<and>
        length (spkTimes r) = 3 \<and> length (spkInds r) = 2) \<and>
   plotRaster idleEnv (listInput [0.1, 0.2, 0.3] [1, 0]) =
     plotRaster idleEnv (listInput [0.1, 0.2] [1, 0])"
proof -
  let ?a = "listInput [0.1, 0.2, 0.3] [1, 0] :: (real, int) args"
  let ?a' = "listInput [0.1, 0.2] [1, 0] :: (real, int) args"
  have 1: "rasterData ?a = Some (SeqData (Seq2 [0.1, 0.2, 0.3] [1, 0]))"
    by (simp add: listInput_sel)
  have 2: "case SeqData (Seq2 [0.1, 0.2, 0.3] [1, 0]) :: real rasterData of
             DictData d \<Rightarrow> d_spkTimes d = Some [0.1, 0.2, 0.3] \<and> d_spkInds d = Some [1, 0]
           | SeqData s \<Rightarrow> seq_item0 s = Inr [0.1, 0.2, 0.3] \<and> seq_item1 s = Inr [1, 0]"
    by simp
  have 3: "rasterData ?a' = Some (SeqData (Seq2 [0.1, 0.2] [1, 0]))"
    by (simp add: listInput_sel)
  have 4: "case SeqData (Seq2 [0.1, 0.2] [1, 0]) :: real rasterData of
             DictData d \<Rightarrow> d_spkTimes d = Some [0.1, 0.2] \<and> d_spkInds d = Some [1, 0]
           | SeqData s \<Rightarrow> seq_item0 s = Inr [0.1, 0.2] \<and> seq_item1 s = Inr [1, 0]"
    by simp
  from no_length_check [OF 1 2 3 4, of idleEnv] show ?thesis by auto
qed

subsection \<open>The bound on the number of events\<close>

text \<open>
  C4. The claim: when the raw input has more events than \<^verbatim>\<open>maxSpikes\<close>, at most
  \<^verbatim>\<open>maxSpikes\<close> events are kept. \<^verbatim>\<open>maxSpikes\<close> is read at line 220 only, where it is handed
  to \<^verbatim>\<open>prepareRaster\<close>. With ten events passed as raster data and \<^verbatim>\<open>maxSpikes = 5\<close>, the
  names \<^verbatim>\<open>spkTimes\<close> and \<^verbatim>\<open>spkInds\<close> hold all ten events after line 245, and the call raises
  at line 251.
\<close>

theorem maxSpikes_not_applied:
  "prepare idleEnv
     ((listInput [1, 2, 3, 4, 5, 6, 7, 8, 9, 10] [0, 1, 2, 3, 4, 0, 1, 2, 3, 4])
        \<lparr>maxSpikes := 5\<rparr>) =
     Inr (None, \<lparr>spkTimes = [1, 2, 3, 4, 5, 6, 7, 8, 9, 10],
                 spkInds = [0, 1, 2, 3, 4, 0, 1, 2, 3, 4], popNumCells = [5],
                 popLabels = [''Population'']\<rparr>) \<and>
   \<not> length [0, 1, 2, 3, 4, 0, 1, 2, 3, 4 :: int] \<le> 5 \<and>
   plotRaster idleEnv
     ((listInput [1, 2, 3, 4, 5, 6, 7, 8, 9, 10] [0, 1, 2, 3, 4, 0, 1, 2, 3, 4])
        \<lparr>maxSpikes := 5\<rparr>) = Inl (NameError ''title'')"
proof -
  let ?a = "(listInput [1, 2, 3, 4, 5, 6, 7, 8, 9, 10] [0, 1, 2, 3, 4, 0, 1, 2, 3, 4])
        \<lparr>maxSpikes := 5\<rparr> :: (real, int) args"
  have 1: "rasterData ?a =
      Some (SeqData (Seq2 [1, 2, 3, 4, 5, 6, 7, 8, 9, 10] [0, 1, 2, 3, 4, 0, 1, 2, 3, 4]))"
    by (simp add: listInput_sel)
  have 2: "popNumCellsArg ?a = None" "popLabelsArg ?a = None" by (simp_all add: listInput_sel)
  have p: "prepare idleEnv ?a =
     Inr (None, \<lparr>spkTimes = [1, 2, 3, 4, 5, 6, 7, 8, 9, 10],
                 spkInds = [0, 1, 2, 3, 4, 0, 1, 2, 3, 4], popNumCells = [5],
                 popLabels = [''Population'']\<rparr>)"
    using prepare_given [OF 1, of "[1, 2, 3, 4, 5, 6, 7, 8, 9, 10]"
        "[0, 1, 2, 3, 4, 0, 1, 2, 3, 4]" None None idleEnv]
    by (simp add: 2 resolveShape_Seq2 defaultPopNumCells_None defaultPopLabels_def)
  have "plotRaster idleEnv ?a = Inl (NameError ''title'')"
    unfolding plotRaster_fails_at p by (simp add: plotterSetup_idleEnv)
  with p show ?thesis by simp
qed

text \<open>
  C4, as the code has it: the body never bounds the events. \<^verbatim>\<open>maxSpikes\<close> is only handed
  to \<^verbatim>\<open>prepareRaster\<close>, when no raster data is passed. For raster data passed by the caller,
  lines 213-245 and the call as a whole do the same for every value of \<^verbatim>\<open>maxSpikes\<close>, and
  \<^verbatim>\<open>spkTimes\<close> and \<^verbatim>\<open>spkInds\<close> hold every event of the input.
\<close>

theorem maxSpikes_only_forwarded:
  assumes "rasterData a = Some rd"
    and "resolveShape rd (popNumCellsArg a) (popLabelsArg a) = Inr (ts, inds, pnc, pl)"
  shows "prepare e (a\<lparr>maxSpikes := m\<rparr>) = prepare e a \<and>
         plotRaster e (a\<lparr>maxSpikes := m\<rparr>) = plotRaster e a \<and>
         (\<exists>r. prepare e a = Inr (None, r) \<and> spkTimes r = ts \<and> spkInds r = inds)"
proof -
  have 1: "prepare e (a\<lparr>maxSpikes := m\<rparr>) = prepare e a"
    using assms(1) by (simp add: prepare_def obtainRasterData_def)
  then have 2: "plotRaster e (a\<lparr>maxSpikes := m\<rparr>) = plotRaster e a"
    by (simp add: plotRaster_fails_at)
  from prepare_given [OF assms, of e] 1 2 show ?thesis by simp
qed

theorem maxSpikes_only_forwarded_witness:
  "prepare idleEnv ((listInput [1, 2, 3] [2, 0, 1])\<lparr>maxSpikes := 1\<rparr>) =
     prepare idleEnv (listInput [1, 2, 3] [2, 0, 1]) \<and>
   plotRaster idleEnv ((listInput [1, 2, 3] [2, 0, 1])\<lparr>maxSpikes := 1\<rparr>) =
     plotRaster idleEnv (listInput [1, 2, 3] [2, 0, 1]) \<and>
   (\<exists>r. prepare idleEnv (listInput [1, 2, 3] [2, 0, 1]) = Inr (None, r) \<and>
        spkTimes r = [1, 2, 3] \<and> spkInds r = [2, 0, 1])"
proof -
  let ?a = "listInput [1, 2, 3] [2, 0, 1] :: (real, int) args"
  have 1: "rasterData ?a = Some (SeqData (Seq2 [1, 2, 3] [2, 0, 1]))"
    by (simp add: listInput_sel)
  have 2: "resolveShape (SeqData (Seq2 [1, 2, 3] [2, 0, 1])) (popNumCellsArg ?a) (popLabelsArg ?a) =
             Inr ([1, 2, 3], [2, 0, 1], None, None)"
    by (simp add: resolveShape_Seq2 listInput_sel)
  from maxSpikes_only_forwarded [OF 1 2, of idleEnv 1] show ?thesis by simp
qed

subsection \<open>Idempotence\<close>

text \<open>
  C8. The claim: normalizing the result of a normalization, passed back as a list, gives
  the same result again. No call gives a result to pass back: the call with times
  \<open>[0.1, 0.3, 0.2]\<close> and indices \<open>[2, 0, 1]\<close> raises at line 251, and so does the call
  with the list of the four parts that the claim expects from it.
\<close>

theorem no_result_to_pass_back:
  "plotRaster idleEnv (listInput [0.1, 0.3, 0.2] [2, 0, 1]) = Inl (NameError ''title'') \<and>
   plotRaster idleEnv
     (defaultArgs\<lparr>rasterData :=
        Some (SeqData (Seq4 [0.3, 0.2, 0.1] [0, 1, 2] (Some [3]) (Some [''Population''])))\<rparr>) =
     Inl (NameError ''title'')"
proof -
  let ?a' = "defaultArgs\<lparr>rasterData :=
        Some (SeqData (Seq4 [0.3, 0.2, 0.1] [0, 1, 2] (Some [3]) (Some [''Population''])))\<rparr>
        :: (real, int) args"
  have "rasterData ?a' =
      Some (SeqData (Seq4 [0.3, 0.2, 0.1] [0, 1, 2] (Some [3]) (Some [''Population''])))"
    by simp
  from prepare_given [OF this resolveShape_Seq4, of idleEnv]
  have "\<exists>x. prepare idleEnv ?a' = Inr x" by simp
  then have "plotRaster idleEnv ?a' = Inl (NameError ''title'')"
    by (auto simp: plotRaster_fails_at plotterSetup_idleEnv)
  then show ?thesis by (simp add: plotRaster_listInput plotterSetup_idleEnv)
qed

subsection \<open>The legend\<close>

lemma mapE_Inr_nth:
  "mapE f xs = Inr ys \<Longrightarrow> k < length xs \<Longrightarrow> f (xs ! k) = Inr (ys ! k)"
proof (induction xs arbitrary: ys k)
  case Nil
  then show ?case by simp
next
  case (Cons x xs)
  then show ?case by (cases k) (auto split: sum.splits)
qed

lemma popCount_card:
  "popCount inds pnc k =
     card {j. j < length inds \<and> sum_list (take k pnc) \<le> inds ! j \<and>
              inds ! j < sum_list (take (Suc k) pnc)}"
  by (simp add: popCount_def length_filter_conv_card)

text \<open>What the expression of line 272 computes where it is evaluated without exception.\<close>

lemma legendHandles_labels:
  assumes "legendHandles g pcolors inds pnc pls = Inr hs"
  shows "length hs = length pls \<and>
         (\<forall>k < length pls.
            label (hs ! k) =
              pls ! k @ '' ('' @
              str_nat (card {j. j < length inds \<and> sum_list (take k pnc) \<le> inds ! j \<and>
                                inds ! j < sum_list (take (Suc k) pnc)}) @ '')'')"
proof (intro conjI allI impI)
  from assms show "length hs = length pls"
    unfolding legendHandles_def by (drule_tac mapE_Inr_length) simp
next
  fix k assume k: "k < length pls"
  then have "k < length (enumerate 0 pls)" by simp
  from mapE_Inr_nth [OF assms [unfolded legendHandles_def] this] k
  obtain c where
    "\<lparr>color = c, label = pls ! k @ '' ('' @ str_nat (popCount inds pnc k) @ '')''\<rparr> = hs ! k"
    by (auto simp: nth_enumerate_eq bindE_Inr_iff)
  from this [symmetric]
  have "label (hs ! k) = pls ! k @ '' ('' @ str_nat (popCount inds pnc k) @ '')''"
    by simp
  then show "label (hs ! k) =
              pls ! k @ '' ('' @
              str_nat (card {j. j < length inds \<and> sum_list (take k pnc) \<le> inds ! j \<and>
                                inds ! j < sum_list (take (Suc k) pnc)}) @ '')''"
    by (simp only: popCount_card)
qed

text \<open>
  C9. The claim: legend entry \<open>k\<close> shows the number of spikes in the range of population
  \<open>k\<close>. No call builds a legend entry: the call raises at line 251, before line 272; and
  line 272 itself, with \<^verbatim>\<open>popColors\<close> left at its default \<^verbatim>\<open>None\<close>, raises TypeError at
  the first label (\<^verbatim>\<open>popColors[pop]\<close>).
\<close>

theorem legend_never_built:
  "plotRaster idleEnv (listInput [1, 2, 3, 4, 5] [0, 1, 2, 2, 1]) = Inl (NameError ''title'') \<and>
   legend (listInput [1, 2, 3, 4, 5] [0, 1, 2, 2, 1] :: (real, int) args) \<and>
   popColors (listInput [1, 2, 3, 4, 5] [0, 1, 2, 2, 1] :: (real, int) args) = None \<and>
   legendHandles True None [0, 1, 1, 2, 2] [3] [''Population''] = Inl TypeError"
proof -
  have "plotRaster idleEnv (listInput [1, 2, 3, 4, 5] [0, 1, 2, 2, 1]) = Inl (NameError ''title'')"
    by (simp add: plotRaster_listInput plotterSetup_idleEnv)
  moreover have "legend (listInput [1, 2, 3, 4, 5] [0, 1, 2, 2, 1] :: (real, int) args)"
    by (simp add: listInput_def defaultArgs_def)
  moreover have "popColors (listInput [1, 2, 3, 4, 5] [0, 1, 2, 2, 1] :: (real, int) args) = None"
    by (simp add: listInput_def defaultArgs_def)
  moreover have "legendHandles True None [0, 1, 1, 2, 2] [3] [''Population''] = Inl TypeError"
    by (simp add: legendHandles_def load_global_def module_globals_def bindE_def)
  ultimately show ?thesis by blast
qed

subsection \<open>Synchrony lines\<close>

text \<open>
  What the two loops visit: for a list \<^verbatim>\<open>cellInds\<close> that holds each index once (in any
  order), and as many times as indices, one spike time per spike, the times of all
  spikes. (The times visited for one \<^verbatim>\<open>cellInd\<close> are those at the positions of that index
  in the ordered \<^verbatim>\<open>spkInds\<close>.)
\<close>

lemma spike_times_total:
  assumes "length inds \<le> length ts"
  shows "spike_times ts inds c =
           Inr (map (nth ts) (filter (\<lambda>i. inds ! i = c) [0..<length inds]))"
  unfolding spike_times_def
  by (rule mapE_total) (use assms in auto)

lemma mset_filter_split:
  "c \<notin> set cs \<Longrightarrow>
   mset (map g (filter (\<lambda>i. f i = c) xs)) + mset (map g (filter (\<lambda>i. f i \<in> set cs) xs)) =
   mset (map g (filter (\<lambda>i. f i = c \<or> f i \<in> set cs) xs))"
  by (induction xs) auto

lemma mset_concat_groups:
  "distinct cs \<Longrightarrow>
   mset (concat (map (\<lambda>c. map g (filter (\<lambda>i. f i = c) xs)) cs)) =
   mset (map g (filter (\<lambda>i. f i \<in> set cs) xs))"
proof (induction cs)
  case Nil
  then show ?case by simp
next
  case (Cons c cs)
  then have "c \<notin> set cs" "distinct cs" by simp_all
  with Cons.IH mset_filter_split [of c cs g f xs] show ?case by simp
qed

lemma syncLineTimes_one_per_spike:
  assumes "length inds = length ts" and "distinct cellInds" and "set cellInds = set inds"
  shows "\<exists>us. syncLineTimes cellInds ts inds = Inr us \<and> mset us = mset ts"
proof -
  let ?G = "\<lambda>c. map (nth ts) (filter (\<lambda>i. inds ! i = c) [0..<length inds])"
  have "mapE (spike_times ts inds) cellInds = Inr (map ?G cellInds)"
    by (rule mapE_total) (simp add: spike_times_total assms(1))
  then have r: "syncLineTimes cellInds ts inds = Inr (concat (map ?G cellInds))"
    by (simp add: syncLineTimes_def bindE_def)
  have "filter (\<lambda>i. inds ! i \<in> set cellInds) [0..<length inds] = [0..<length inds]"
    by (simp add: assms(3) filter_id_conv)
  with mset_concat_groups [OF assms(2), of "nth ts" "\<lambda>i. inds ! i" "[0..<length inds]"]
  have "mset (concat (map ?G cellInds)) = mset (map (nth ts) [0..<length inds])"
    by simp
  also have "map (nth ts) [0..<length inds] = ts"
    unfolding assms(1) by (rule map_nth)
  finally show ?thesis using r by simp
qed

text \<open>What they draw: a call that gets through the block has drawn no line.\<close>

lemma drawSyncLines_draws_nothing:
  assumes "drawSyncLines g cellInds ts inds = Inr ms"
  shows "ms = []"
proof -
  let ?F = "\<lambda>cellInd.
              bindE (spike_times ts inds cellInd) (\<lambda>sts.
              mapE (\<lambda>spike_time.
                      bindE (load_global g ''linewidth'') (\<lambda>_.
                      Inr \<lparr>vx = spike_time, ymin = 0, ymax = int (length cellInds)\<rparr>))
                   sts)"
  from assms obtain dss where d: "mapE ?F cellInds = Inr dss" and ms: "ms = concat dss"
    by (auto simp: drawSyncLines_def bindE_Inr_iff)
  have "ds = []" if "ds \<in> set dss" for ds
  proof -
    from mapE_Inr_all2 [OF d] that obtain c where "?F c = Inr ds"
      by (auto simp: list_all2_conv_all_nth in_set_conv_nth)
    then obtain sts where
      m: "mapE (\<lambda>spike_time.
                      bindE (load_global g ''linewidth'') (\<lambda>_.
                      Inr \<lparr>vx = spike_time, ymin = 0, ymax = int (length cellInds)\<rparr>)) sts = Inr ds"
      by (auto simp: bindE_Inr_iff)
    then show ?thesis
      by (cases sts) (auto simp: unbound_names bindE_def)
  qed
  with ms show ?thesis by simp
qed

text \<open>
  C10. The claim: with \<^verbatim>\<open>syncLines\<close> one vertical marker is drawn per spike. Each call of
  \<^verbatim>\<open>axis.vlines\<close> at line 268 reads the name \<^verbatim>\<open>linewidth\<close>, which is bound nowhere: the
  block raises NameError at the first marker, for one spike already, and the call as a
  whole does not get to the block (line 251).
\<close>

theorem syncLines_never_drawn:
  "drawSyncLines g (cellIndsOf [0]) [0.5 :: real] [0] = Inl (NameError ''linewidth'') \<and>
   plotRaster idleEnv ((listInput [0.5] [0])\<lparr>syncLines := True\<rparr>) = Inl (NameError ''title'')"
  by (simp add: drawSyncLines_def cellIndsOf_def spike_times_def bindE_def unbound_names
      plotRaster_fails_at prepare_def obtainRasterData_def listInput_def defaultArgs_def
      resolveShape_def idleEnv_def)

subsection \<open>Effects and dependence on the surroundings\<close>

lemma prepare_env:
  assumes "rasterData a \<noteq> None \<or> kw_sim a \<noteq> None"
  shows "prepare e' a = prepare e a"
  using assms
  by (auto simp: prepare_def obtainRasterData_def split: option.splits)

text \<open>
  C5. The claim: the function has no side effects and is a function of its arguments and
  of the collaborator passed in. With no raster data and no \<^verbatim>\<open>sim\<close> keyword the body reads
  the ambient simulation (\<^verbatim>\<open>from .. import sim\<close>, lines 215-216): the same arguments give
  other values after line 245 under another ambient simulation, and another exception
  where there is none.
\<close>

theorem ambient_simulation_decides:
  "prepare (ambientEnv (simWith [0.5] [0])) defaultArgs =
     Inr (Some (simWith [0.5] [0]),
          \<lparr>spkTimes = [0.5], spkInds = [0], popNumCells = [1],
           popLabels = [''Population'']\<rparr>) \<and>
   prepare (ambientEnv (simWith [0.5, 0.75] [1, 0])) defaultArgs =
     Inr (Some (simWith [0.5, 0.75] [1, 0]),
          \<lparr>spkTimes = [0.5, 0.75], spkInds = [1, 0], popNumCells = [2],
           popLabels = [''Population'']\<rparr>) \<and>
   [0.5] \<noteq> [0.5, 0.75 :: real] \<and>
   plotRaster (ambientEnv (simWith [0.5] [0])) defaultArgs = Inl (NameError ''title'') \<and>
   plotRaster idleEnv defaultArgs = Inl (CollaboratorError ''no simulation'')"
proof -
  have p: "prepare (ambientEnv (simWith ts inds)) defaultArgs =
     Inr (Some (simWith ts inds),
          \<lparr>spkTimes = ts, spkInds = inds, popNumCells = [int (length (remdups inds))],
           popLabels = [''Population'']\<rparr>)" for ts inds
    by (simp add: prepare_def obtainRasterData_def defaultArgs_def ambientEnv_def bindE_def
        simWith_def resolveShape_Seq2 defaultPopNumCells_None defaultPopLabels_def)
  have s: "plotterSetup (ambientEnv (simWith [0.5] [0])) = Inr ()"
    by (simp add: ambientEnv_def idleEnv_def)
  have 1: "plotRaster (ambientEnv (simWith [0.5] [0])) defaultArgs = Inl (NameError ''title'')"
    unfolding plotRaster_fails_at p s by simp
  have 2: "plotRaster idleEnv defaultArgs = Inl (CollaboratorError ''no simulation'')"
    by (simp add: plotRaster_fails_at prepare_def obtainRasterData_def defaultArgs_def
        idleEnv_def bindE_def)
  from p [of "[0.5]" "[0]"] p [of "[0.5, 0.75]" "[1, 0]"] 1 2 show ?thesis by simp
qed

text \<open>
  C5, as the code has it: no call writes state. Every call ends with \<^verbatim>\<open>plt.rcParams\<close>, the
  axis, the figures shown and the files saved as they were, so that a second call starts
  where the first one started. A call is a function of its arguments and of what the
  set-up of the plotter does when raster data or a \<^verbatim>\<open>sim\<close> keyword is passed: then the
  values after line 245 and the end of the call are the same in every environment with
  that set-up. (Without both, they depend on the ambient simulation.)
\<close>

theorem call_writes_no_state:
  "snd (plotRaster_w e a w) = w \<and>
   (rasterData a \<noteq> None \<or> kw_sim a \<noteq> None \<longrightarrow>
    plotterSetup e' = plotterSetup e \<longrightarrow>
    prepare e' a = prepare e a \<and> plotRaster_w e' a w = plotRaster_w e a w)"
proof (intro conjI impI)
  show "snd (plotRaster_w e a w) = w"
    by (simp add: plotRaster_w_fails_at split: sum.splits)
next
  assume h: "rasterData a \<noteq> None \<or> kw_sim a \<noteq> None"
  then show "prepare e' a = prepare e a" by (rule prepare_env)
next
  assume h: "rasterData a \<noteq> None \<or> kw_sim a \<noteq> None"
    and s: "plotterSetup e' = plotterSetup e"
  from h have "prepare e' a = prepare e a" by (rule prepare_env)
  with s show "plotRaster_w e' a w = plotRaster_w e a w"
    by (simp add: plotRaster_w_fails_at split: sum.splits)
qed

theorem call_writes_no_state_witness:
  "snd (plotRaster_w idleEnv (listInput [0.1, 0.3, 0.2] [2, 0, 1]) freshWorld) = freshWorld \<and>
   prepare (ambientEnv (simWith [0.5] [0])) (listInput [0.1, 0.3, 0.2] [2, 0, 1]) =
     prepare idleEnv (listInput [0.1, 0.3, 0.2] [2, 0, 1]) \<and>
   plotRaster_w (ambientEnv (simWith [0.5] [0])) (listInput [0.1, 0.3, 0.2] [2, 0, 1]) freshWorld =
     plotRaster_w idleEnv (listInput [0.1, 0.3, 0.2] [2, 0, 1]) freshWorld"
proof -
  let ?a = "listInput [0.1, 0.3, 0.2] [2, 0, 1] :: (real, int) args"
  have 1: "rasterData ?a \<noteq> None \<or> kw_sim ?a \<noteq> None" by (simp add: listInput_sel)
  have 2: "plotterSetup (ambientEnv (simWith [0.5] [0])) = plotterSetup idleEnv"
    by (simp add: ambientEnv_def)
  from call_writes_no_state [of idleEnv ?a freshWorld "ambientEnv (simWith [0.5] [0])"] 1 2
  show ?thesis by blast
qed

end
